theory Spec2Isabelle
  imports Main "HOL-Library.Sublist" "HOL-Library.AList"
begin

section \<open>Map payload assembly: \<^verbatim>\<open>pymammotion/data/model/hash_list.py\<close>\<close>

text \<open>
  Modelled from the spec: the message class \<^verbatim>\<open>NavGetCommDataAck\<close> lives in
  \<^verbatim>\<open>pymammotion/proto/mctrl_nav.py\<close>, which is not among the sources. The assembler reads
  three of its fields (\<^verbatim>\<open>type\<close>, \<^verbatim>\<open>hash\<close>, \<^verbatim>\<open>total_frame\<close>); everything else the message
  carries is the type parameter \<open>'c\<close>. The spec defines equality of two fragments by their
  full content, which is equality of the record.
\<close>

record 'c NavGetCommDataAck =
  type :: int
  hash :: int
  total_frame :: int
  content :: 'c

text \<open>
  \<^verbatim>\<open>FrameList\<close> is a dataclass with the fields \<^verbatim>\<open>total_frame\<close> and \<^verbatim>\<open>data\<close>. The record
  field \<open>total_frame\<close> is taken by the message above, so the one of the frame list carries
  the class name in front.
\<close>

record 'c FrameList =
  FrameList_total_frame :: int
  data :: "'c NavGetCommDataAck list"

text \<open>
  The membership test of \<^verbatim>\<open>_add_hash_data\<close> compares a message with the elements of a list of
  hash values, so both kinds of Python object meet in one comparison. A Python value is
  therefore tagged with its class: an \<^verbatim>\<open>int\<close> and a message are never equal (both
  \<^verbatim>\<open>__eq__\<close> methods answer \<^verbatim>\<open>NotImplemented\<close> and the comparison falls back to object
  identity), two values of the same class are equal when their contents are.
\<close>

datatype 'c py_value = Py_int int | Py_message "'c NavGetCommDataAck"

text \<open>\<^verbatim>\<open>x not in xs\<close> on a Python list.\<close>

definition py_not_in :: "'c py_value \<Rightarrow> 'c py_value list \<Rightarrow> bool" where
  "py_not_in x xs = (x \<notin> set xs)"

text \<open>
  \<^verbatim>\<open>
  def _add_hash_data(hash_dict, hash_data):
      if hash_dict.get(hash_data.hash) is None:
          hash_dict[hash_data.hash] = FrameList(total_frame=hash_data.total_frame, data=[hash_data])
      hash_values = [item.hash for item in hash_dict[hash_data.hash].data]
      if hash_data not in hash_values:
          hash_dict[hash_data.hash].data.append(hash_data)
  \<close>
  The dictionary is a map from hash to frame list; the function returns the updated map.
\<close>

definition add_hash_data ::
  "(int \<rightharpoonup> 'c FrameList) \<Rightarrow> 'c NavGetCommDataAck \<Rightarrow> (int \<rightharpoonup> 'c FrameList)" where
  "add_hash_data hash_dict hash_data =
     (let hash_dict1 =
            (case hash_dict (hash hash_data) of
               None \<Rightarrow> hash_dict(hash hash_data \<mapsto>
                         \<lparr>FrameList_total_frame = total_frame hash_data, data = [hash_data]\<rparr>)
             | Some _ \<Rightarrow> hash_dict)
      in case hash_dict1 (hash hash_data) of
           None \<Rightarrow> hash_dict1
         | Some frame_list \<Rightarrow>
             (let hash_values = map (\<lambda>item. Py_int (hash item)) (data frame_list)
              in if py_not_in (Py_message hash_data) hash_values
                 then hash_dict1(hash hash_data \<mapsto>
                        frame_list\<lparr>data := data frame_list @ [hash_data]\<rparr>)
                 else hash_dict1))"

text \<open>
  \<^verbatim>\<open>HashList\<close>: three dictionaries, one per category. The three are separate dictionary
  objects.
\<close>

record 'c HashList =
  area :: "int \<rightharpoonup> 'c FrameList"
  path :: "int \<rightharpoonup> 'c FrameList"
  obstacle :: "int \<rightharpoonup> 'c FrameList"

text \<open>
  \<^verbatim>\<open>
  def update(self, hash_data):
      if hash_data.type == 0: self._add_hash_data(self.area, hash_data)
      if hash_data.type == 1: self._add_hash_data(self.obstacle, hash_data)
      if hash_data.type == 2: self._add_hash_data(self.path, hash_data)
  \<close>
\<close>

definition update :: "'c HashList \<Rightarrow> 'c NavGetCommDataAck \<Rightarrow> 'c HashList" where
  "update self hash_data =
     (let self1 = (if type hash_data = 0
                   then self\<lparr>area := add_hash_data (area self) hash_data\<rparr> else self);
          self2 = (if type hash_data = 1
                   then self1\<lparr>obstacle := add_hash_data (obstacle self1) hash_data\<rparr> else self1);
          self3 = (if type hash_data = 2
                   then self2\<lparr>path := add_hash_data (path self2) hash_data\<rparr> else self2)
      in self3)"

text \<open>Ingesting a sequence of fragments, first to last.\<close>

fun update_all :: "'c HashList \<Rightarrow> 'c NavGetCommDataAck list \<Rightarrow> 'c HashList" where
  "update_all self [] = self"
| "update_all self (hash_data # rest) = update_all (update self hash_data) rest"

text \<open>A \<^verbatim>\<open>HashList\<close> whose three dictionaries are empty.\<close>

definition empty_HashList :: "'c HashList" where
  "empty_HashList = \<lparr>area = Map.empty, path = Map.empty, obstacle = Map.empty\<rparr>"

text \<open>The dictionary a category number selects, if any.\<close>

definition category :: "'c HashList \<Rightarrow> int \<Rightarrow> (int \<rightharpoonup> 'c FrameList) option" where
  "category self t =
     (if t = 0 then Some (area self)
      else if t = 1 then Some (obstacle self)
      else if t = 2 then Some (path self)
      else None)"

section \<open>Device registry and routing: \<^verbatim>\<open>pymammotion/mammotion/devices/mammotion.py\<close>\<close>

datatype ConnectionPreference = EITHER | WIFI | BLUETOOTH

text \<open>
  The exceptions the modelled code can raise: \<^verbatim>\<open>KeyError\<close> from \<^verbatim>\<open>dict.pop\<close> on a missing
  key, \<^verbatim>\<open>AttributeError\<close> from a method call on \<^verbatim>\<open>None\<close>, and whatever the login exchange
  raises. Of these only \<^verbatim>\<open>KeyError\<close> is a subclass of Python's \<^verbatim>\<open>LookupError\<close>.
\<close>

datatype error = KeyError | AttributeError | LoginError

fun is_LookupError :: "error \<Rightarrow> bool" where
  "is_LookupError KeyError = True"
| "is_LookupError AttributeError = False"
| "is_LookupError LoginError = False"

text \<open>
  Modelled from the spec: the descriptor classes \<^verbatim>\<open>Device\<close> (an entry of the account's device
  list) and \<^verbatim>\<open>BLEDevice\<close> (the platform's radio device) are imported from packages that are
  not among the sources. The code reads \<^verbatim>\<open>deviceName\<close> of the first and \<^verbatim>\<open>name\<close> of the
  second.
\<close>

record Device =
  deviceName :: string
  iotId :: string

record BLEDevice =
  BLEDevice_name :: string
  address :: string

text \<open>
  Modelled from the spec: the transport handle classes \<^verbatim>\<open>MammotionBaseBLEDevice\<close> and
  \<^verbatim>\<open>MammotionBaseCloudDevice\<close> and the broker connection class \<^verbatim>\<open>MammotionCloud\<close> are
  defined in modules that are not among the sources. A radio handle is constructed from the
  raw platform device; a cloud handle from a broker connection and a device descriptor. The
  broker connection a cloud handle is bound to is read as \<^verbatim>\<open>_mqtt\<close> and as \<^verbatim>\<open>mqtt\<close> by the
  code; both are the one binding \<open>mqtt\<close> here. Broker connections are shared objects that
  the code compares by identity, so a handle holds a reference (a number) to the
  connection, \<open>None\<close> when the handle was built without one. The shared mower state that
  every handle also receives is not read by any operation below and is left out.
\<close>

record MammotionBaseBLEDevice =
  raw_device :: BLEDevice

record MammotionBaseCloudDevice =
  mqtt :: "nat option"
  device :: Device

text \<open>
  Modelled from the spec: the authenticated cloud context \<^verbatim>\<open>CloudIOTGateway\<close> is imported
  from a module that is not among the sources. It is the client identifier and the
  account's device list, \<^verbatim>\<open>devices_by_account_response.data.data\<close>, which is present after a
  login.
\<close>

record CloudIOTGateway =
  client_id :: string
  devices_by_account :: "Device list"

text \<open>
  Modelled from the spec: the broker connection \<^verbatim>\<open>MammotionCloud\<close>, with the two attributes
  the code reads: the cloud context it was built from and \<^verbatim>\<open>is_connected\<close>. The class
  defines no equality and no truth value of its own in what the spec says of it, so two
  connections are equal when they are the same object and a connection is true.
\<close>

record MammotionCloud =
  cloud_client :: CloudIOTGateway
  is_connected :: bool

subsection \<open>\<^verbatim>\<open>MammotionMixedDeviceManager\<close>: the pair of transport handles\<close>

text \<open>The fields \<^verbatim>\<open>_ble_device\<close> and \<^verbatim>\<open>_cloud_device\<close> are \<open>p_ble_device\<close> and \<open>p_cloud_device\<close>.\<close>

record MammotionMixedDeviceManager =
  name :: string
  p_ble_device :: "MammotionBaseBLEDevice option"
  p_cloud_device :: "MammotionBaseCloudDevice option"
  preference :: ConnectionPreference

definition ble :: "MammotionMixedDeviceManager \<Rightarrow> MammotionBaseBLEDevice option" where
  "ble self = p_ble_device self"

definition cloud :: "MammotionMixedDeviceManager \<Rightarrow> MammotionBaseCloudDevice option" where
  "cloud self = p_cloud_device self"

definition add_ble :: "MammotionMixedDeviceManager \<Rightarrow> BLEDevice option \<Rightarrow> MammotionMixedDeviceManager" where
  "add_ble self ble_dev =
     (case ble_dev of
        None \<Rightarrow> self
      | Some b \<Rightarrow> self\<lparr>p_ble_device := Some \<lparr>raw_device = b\<rparr>\<rparr>)"

definition add_cloud ::
  "MammotionMixedDeviceManager \<Rightarrow> Device option \<Rightarrow> nat option \<Rightarrow> MammotionMixedDeviceManager" where
  "add_cloud self cloud_dev mqtt_client =
     (case cloud_dev of
        None \<Rightarrow> self
      | Some d \<Rightarrow> self\<lparr>p_cloud_device := Some \<lparr>mqtt = mqtt_client, device = d\<rparr>\<rparr>)"

definition replace_cloud ::
  "MammotionMixedDeviceManager \<Rightarrow> MammotionBaseCloudDevice option \<Rightarrow> MammotionMixedDeviceManager" where
  "replace_cloud self cloud_handle = self\<lparr>p_cloud_device := cloud_handle\<rparr>"

definition replace_ble ::
  "MammotionMixedDeviceManager \<Rightarrow> MammotionBaseBLEDevice option \<Rightarrow> MammotionMixedDeviceManager" where
  "replace_ble self ble_handle = self\<lparr>p_ble_device := ble_handle\<rparr>"

text \<open>
  \<^verbatim>\<open>self._cloud_device._mqtt = mqtt\<close>: an attribute assignment on \<^verbatim>\<open>None\<close> raises when the
  pair has no cloud handle.
\<close>

definition replace_mqtt ::
  "MammotionMixedDeviceManager \<Rightarrow> nat \<Rightarrow> error + MammotionMixedDeviceManager" where
  "replace_mqtt self mqtt_client =
     (case p_cloud_device self of
        None \<Rightarrow> Inl AttributeError
      | Some c \<Rightarrow> Inr (self\<lparr>p_cloud_device := Some (c\<lparr>mqtt := Some mqtt_client\<rparr>)\<rparr>))"

definition has_cloud :: "MammotionMixedDeviceManager \<Rightarrow> bool" where
  "has_cloud self = (p_cloud_device self \<noteq> None)"

definition has_ble :: "MammotionMixedDeviceManager \<Rightarrow> bool" where
  "has_ble self = (p_ble_device self \<noteq> None)"

text \<open>
  \<^verbatim>\<open>__init__(name, cloud_device=None, ble_device=None, mqtt=None, preference=BLUETOOTH)\<close>:
  both handle attributes start as the class attribute \<^verbatim>\<open>None\<close>.
\<close>

definition MammotionMixedDeviceManager_init ::
  "string \<Rightarrow> Device option \<Rightarrow> BLEDevice option \<Rightarrow> nat option \<Rightarrow> ConnectionPreference
     \<Rightarrow> MammotionMixedDeviceManager" where
  "MammotionMixedDeviceManager_init device_name cloud_dev ble_dev mqtt_client pref =
     (let self0 = \<lparr>name = device_name, p_ble_device = None, p_cloud_device = None,
                   preference = pref\<rparr>;
          self1 = add_ble self0 ble_dev;
          self2 = add_cloud self1 cloud_dev mqtt_client
      in self2\<lparr>preference := pref\<rparr>)"

subsection \<open>\<^verbatim>\<open>MammotionDevices\<close>: the registry\<close>

text \<open>
  The registry is a Python dictionary from device name to pair; \<^verbatim>\<open>remove_device\<close> iterates
  over its items, so it is an association list here, in insertion order, with
  \<open>map_of\<close> for \<^verbatim>\<open>dict.get\<close>, \<open>AList.update\<close> for item assignment and \<open>AList.delete\<close> for
  the removal of a key. A pair is a mutable object that the dictionary refers to: changing a
  pair in place is writing the changed pair back under its key.
\<close>

type_synonym MammotionDevices = "(string \<times> MammotionMixedDeviceManager) list"

definition get_device :: "MammotionDevices \<Rightarrow> string \<Rightarrow> MammotionMixedDeviceManager option" where
  "get_device devs device_name = map_of devs device_name"

definition add_device :: "MammotionDevices \<Rightarrow> MammotionMixedDeviceManager \<Rightarrow> MammotionDevices" where
  "add_device devs mammotion_device =
     (case map_of devs (name mammotion_device) of
        None \<Rightarrow> AList.update (name mammotion_device) mammotion_device devs
      | Some exists1 \<Rightarrow>
          (let exists2 = (if has_cloud mammotion_device
                          then replace_cloud exists1 (cloud mammotion_device) else exists1);
               exists3 = (if has_ble mammotion_device
                          then replace_ble exists2 (ble mammotion_device) else exists2)
           in AList.update (name mammotion_device) exists3 devs))"

text \<open>
  \<^verbatim>\<open>
  def remove_device(self, name):
      device_for_removal = self.devices.pop(name)
      if device_for_removal.has_cloud():
          should_disconnect = {device for key, device in self.devices.items()
              if device.cloud() is not None
                 and device.cloud()._mqtt == device_for_removal.cloud()._mqtt}
          if len(should_disconnect) == 0:
              device_for_removal.cloud()._mqtt.disconnect()
  \<close>
  The result is the registry after the removal together with the broker connection whose
  \<^verbatim>\<open>disconnect()\<close> was called, if any.
\<close>

definition shares_mqtt :: "nat option \<Rightarrow> string \<times> MammotionMixedDeviceManager \<Rightarrow> bool" where
  "shares_mqtt removed_mqtt item =
     (case cloud (snd item) of None \<Rightarrow> False | Some c \<Rightarrow> mqtt c = removed_mqtt)"

definition remove_device :: "MammotionDevices \<Rightarrow> string \<Rightarrow> error + (MammotionDevices \<times> nat option)" where
  "remove_device devs device_name =
     (case map_of devs device_name of
        None \<Rightarrow> Inl KeyError
      | Some device_for_removal \<Rightarrow>
          (let devs1 = AList.delete device_name devs
           in if has_cloud device_for_removal
              then (case cloud device_for_removal of
                      None \<Rightarrow> Inl AttributeError
                    | Some removed_cloud \<Rightarrow>
                        (let should_disconnect = filter (shares_mqtt (mqtt removed_cloud)) devs1
                         in if length should_disconnect = 0
                            then (case mqtt removed_cloud of
                                    None \<Rightarrow> Inl AttributeError
                                  | Some broker \<Rightarrow> Inr (devs1, Some broker))
                            else Inr (devs1, None)))
              else Inr (devs1, None)))"

subsection \<open>\<^verbatim>\<open>Mammotion\<close>: the account and its devices\<close>

text \<open>
  The calls that leave the process: a login exchange for an account, and \<^verbatim>\<open>connect_async\<close>
  and \<^verbatim>\<open>disconnect\<close> on a broker connection. The model records them in the order they are
  made.
\<close>

datatype call = Login_exchange string | Connect_async nat | Disconnect nat

text \<open>
  The state of the singleton: the registry, the broker connection of each account
  (\<^verbatim>\<open>mqtt_list\<close>), the attribute \<^verbatim>\<open>cloud_client\<close>, the store of the broker connection objects
  created so far (a reference is the number of the object, \<open>next_ref\<close> the next free one), and
  the record of outside calls.
\<close>

record Mammotion =
  devices :: MammotionDevices
  mqtt_list :: "string \<rightharpoonup> nat"
  self_cloud_client :: "CloudIOTGateway option"
  objects :: "nat \<Rightarrow> MammotionCloud"
  next_ref :: nat
  calls :: "call list"

definition add_ble_device :: "Mammotion \<Rightarrow> BLEDevice option \<Rightarrow> ConnectionPreference \<Rightarrow> Mammotion" where
  "add_ble_device self ble_dev pref =
     (case ble_dev of
        None \<Rightarrow> self
      | Some b \<Rightarrow>
          self\<lparr>devices := add_device (devices self)
                  (MammotionMixedDeviceManager_init (BLEDevice_name b) None (Some b) None pref)\<rparr>)"

text \<open>\<^verbatim>\<open>str.startswith\<close> with a tuple of prefixes.\<close>

definition startswith :: "string \<Rightarrow> string list \<Rightarrow> bool" where
  "startswith s ps = list_ex (\<lambda>p. prefix p s) ps"

text \<open>
  The body of the loop of \<^verbatim>\<open>add_cloud_devices\<close>, for one descriptor of the account's list:
  \<^verbatim>\<open>
  mower_device = self.devices.get_device(device.deviceName)
  if device.deviceName.startswith(("Luba-", "Yuka-")) and mower_device is None:
      self.devices.add_device(MammotionMixedDeviceManager(name=device.deviceName,
          cloud_device=device, mqtt=mqtt_client, preference=ConnectionPreference.WIFI))
  elif device.deviceName.startswith(("Luba-", "Yuka-")) and mower_device:
      if mower_device.cloud() is None:
          mower_device.add_cloud(cloud_device=device, mqtt=mqtt_client)
      elif mqtt_client != mower_device.cloud().mqtt:
          mower_device.replace_mqtt(mqtt_client)
  \<close>
\<close>

definition add_cloud_device :: "MammotionDevices \<Rightarrow> nat \<Rightarrow> Device \<Rightarrow> error + MammotionDevices" where
  "add_cloud_device devs mqtt_client dev =
     (let mower_device = get_device devs (deviceName dev)
      in if startswith (deviceName dev) [''Luba-'', ''Yuka-''] \<and> mower_device = None
         then Inr (add_device devs
                 (MammotionMixedDeviceManager_init (deviceName dev) (Some dev) None
                    (Some mqtt_client) WIFI))
         else if startswith (deviceName dev) [''Luba-'', ''Yuka-''] \<and> mower_device \<noteq> None
         then (case mower_device of
                 None \<Rightarrow> Inr devs
               | Some m \<Rightarrow>
                   (case cloud m of
                      None \<Rightarrow> Inr (AList.update (deviceName dev)
                                     (add_cloud m (Some dev) (Some mqtt_client)) devs)
                    | Some c \<Rightarrow>
                        if Some mqtt_client \<noteq> mqtt c
                        then (case replace_mqtt m mqtt_client of
                                Inl e \<Rightarrow> Inl e
                              | Inr m' \<Rightarrow> Inr (AList.update (deviceName dev) m' devs))
                        else Inr devs))
         else Inr devs)"

fun add_cloud_devices_loop ::
  "MammotionDevices \<Rightarrow> nat \<Rightarrow> Device list \<Rightarrow> error + MammotionDevices" where
  "add_cloud_devices_loop devs mqtt_client [] = Inr devs"
| "add_cloud_devices_loop devs mqtt_client (dev # rest) =
     (case add_cloud_device devs mqtt_client dev of
        Inl e \<Rightarrow> Inl e
      | Inr devs' \<Rightarrow> add_cloud_devices_loop devs' mqtt_client rest)"

definition add_cloud_devices :: "Mammotion \<Rightarrow> nat \<Rightarrow> error + Mammotion" where
  "add_cloud_devices self mqtt_client =
     (case add_cloud_devices_loop (devices self) mqtt_client
             (devices_by_account (cloud_client (objects self mqtt_client))) of
        Inl e \<Rightarrow> Inl e
      | Inr devs' \<Rightarrow> Inr (self\<lparr>devices := devs'\<rparr>))"

text \<open>
  \<^verbatim>\<open>login\<close> performs the login exchange with the cloud, which is outside this program: the
  parameter \<open>exchange\<close> gives, for an account and a password, the authenticated context or
  the error the exchange ends with.
\<close>

definition login ::
  "(string \<Rightarrow> string \<Rightarrow> error + CloudIOTGateway) \<Rightarrow> Mammotion \<Rightarrow> string \<Rightarrow> string
     \<Rightarrow> error + (CloudIOTGateway \<times> Mammotion)" where
  "login exchange self account password =
     (case exchange account password of
        Inl e \<Rightarrow> Inl e
      | Inr client \<Rightarrow> Inr (client, self\<lparr>calls := calls self @ [Login_exchange account]\<rparr>))"

text \<open>
  \<^verbatim>\<open>
  async def initiate_cloud_connection(self, account, cloud_client):
      if self.mqtt_list.get(account) is not None:
          if self.mqtt_list.get(account).is_connected:
              self.add_cloud_devices(self.mqtt_list.get(account))
              return
      self.cloud_client = cloud_client
      mammotion_cloud = MammotionCloud(MammotionMQTT(...), cloud_client)
      self.mqtt_list[account] = mammotion_cloud
      self.add_cloud_devices(mammotion_cloud)
      loop = asyncio.get_running_loop()
      await loop.run_in_executor(None, self.mqtt_list[account].connect_async)
  \<close>
  A new broker connection object is not connected; whether and when \<^verbatim>\<open>connect_async\<close>
  brings it up is the transport's business, so the call is recorded and \<open>is_connected\<close>
  is left to the environment.
\<close>

definition new_cloud_connection :: "Mammotion \<Rightarrow> string \<Rightarrow> CloudIOTGateway \<Rightarrow> error + Mammotion" where
  "new_cloud_connection self account client =
     (let mammotion_cloud = next_ref self;
          self1 = self\<lparr>self_cloud_client := Some client,
                       objects := (objects self)
                          (mammotion_cloud := \<lparr>cloud_client = client, is_connected = False\<rparr>),
                       next_ref := Suc mammotion_cloud\<rparr>;
          self2 = self1\<lparr>mqtt_list := (mqtt_list self1)(account \<mapsto> mammotion_cloud)\<rparr>
      in case add_cloud_devices self2 mammotion_cloud of
           Inl e \<Rightarrow> Inl e
         | Inr self3 \<Rightarrow> Inr (self3\<lparr>calls := calls self3 @ [Connect_async mammotion_cloud]\<rparr>))"

definition initiate_cloud_connection :: "Mammotion \<Rightarrow> string \<Rightarrow> CloudIOTGateway \<Rightarrow> error + Mammotion" where
  "initiate_cloud_connection self account client =
     (case mqtt_list self account of
        Some existing \<Rightarrow>
          if is_connected (objects self existing)
          then add_cloud_devices self existing
          else new_cloud_connection self account client
      | None \<Rightarrow> new_cloud_connection self account client)"

text \<open>
  \<^verbatim>\<open>
  async def login_and_initiate_cloud(self, account, password, force=False):
      async with self._login_lock:
          exists = self.mqtt_list.get(account)
          if not exists or force:
              cloud_client = await self.login(account, password)
          else:
              cloud_client = exists.cloud_client
          await self.initiate_cloud_connection(account, cloud_client)
  \<close>
  One call, run from start to end; the lock orders whole calls and is not part of the
  sequential model.
\<close>

definition login_and_initiate_cloud ::
  "(string \<Rightarrow> string \<Rightarrow> error + CloudIOTGateway) \<Rightarrow> Mammotion \<Rightarrow> string \<Rightarrow> string \<Rightarrow> bool
     \<Rightarrow> error + Mammotion" where
  "login_and_initiate_cloud exchange self account password force =
     (let exists1 = mqtt_list self account
      in case (if exists1 = None \<or> force
               then login exchange self account password
               else (case exists1 of
                       None \<Rightarrow> Inl AttributeError
                     | Some r \<Rightarrow> Inr (cloud_client (objects self r), self))) of
           Inl e \<Rightarrow> Inl e
         | Inr (client, self1) \<Rightarrow> initiate_cloud_connection self1 account client)"

text \<open>\<^verbatim>\<open>Mammotion.remove_device\<close> hands over to the registry; a \<^verbatim>\<open>disconnect()\<close> is recorded.\<close>

definition Mammotion_remove_device :: "Mammotion \<Rightarrow> string \<Rightarrow> error + Mammotion" where
  "Mammotion_remove_device self device_name =
     (case remove_device (devices self) device_name of
        Inl e \<Rightarrow> Inl e
      | Inr (devs', None) \<Rightarrow> Inr (self\<lparr>devices := devs'\<rparr>)
      | Inr (devs', Some broker) \<Rightarrow>
          Inr (self\<lparr>devices := devs', calls := calls self @ [Disconnect broker]\<rparr>))"

definition get_device_by_name :: "Mammotion \<Rightarrow> string \<Rightarrow> MammotionMixedDeviceManager option" where
  "get_device_by_name self device_name = get_device (devices self) device_name"

subsection \<open>Routing\<close>

text \<open>
  The methods of a transport handle belong to the transports. A routing operation either
  returns \<^verbatim>\<open>None\<close> without touching a handle (\<open>Inr None\<close>), or awaits one method of one
  handle and returns its result (\<open>Inr (Some ...)\<close>, naming the handle and the request), or
  raises.
\<close>

datatype request =
  Command string "(string \<times> string) list"
  | Start_sync int
  | Start_map_sync

datatype routed =
  Via_ble MammotionBaseBLEDevice request
  | Via_cloud MammotionBaseCloudDevice request

text \<open>
  The four operations have one shape:
  \<^verbatim>\<open>
  device = self.get_device_by_name(name)
  if device:
      if device.preference is ConnectionPreference.BLUETOOTH:
          return await device.ble().<method>(...)
      if device.preference is ConnectionPreference.WIFI:
          return await device.cloud().<method>(...)
      # TODO work with both with EITHER
  \<close>
\<close>

definition send_command :: "Mammotion \<Rightarrow> string \<Rightarrow> string \<Rightarrow> error + routed option" where
  "send_command self device_name key =
     (case get_device_by_name self device_name of
        None \<Rightarrow> Inr None
      | Some d \<Rightarrow>
          if preference d = BLUETOOTH
          then (case ble d of
                  None \<Rightarrow> Inl AttributeError
                | Some h \<Rightarrow> Inr (Some (Via_ble h (Command key []))))
          else if preference d = WIFI
          then (case cloud d of
                  None \<Rightarrow> Inl AttributeError
                | Some h \<Rightarrow> Inr (Some (Via_cloud h (Command key []))))
          else Inr None)"

definition send_command_with_args ::
  "Mammotion \<Rightarrow> string \<Rightarrow> string \<Rightarrow> (string \<times> string) list \<Rightarrow> error + routed option" where
  "send_command_with_args self device_name key kwargs =
     (case get_device_by_name self device_name of
        None \<Rightarrow> Inr None
      | Some d \<Rightarrow>
          if preference d = BLUETOOTH
          then (case ble d of
                  None \<Rightarrow> Inl AttributeError
                | Some h \<Rightarrow> Inr (Some (Via_ble h (Command key kwargs))))
          else if preference d = WIFI
          then (case cloud d of
                  None \<Rightarrow> Inl AttributeError
                | Some h \<Rightarrow> Inr (Some (Via_cloud h (Command key kwargs))))
          else Inr None)"

definition start_sync :: "Mammotion \<Rightarrow> string \<Rightarrow> int \<Rightarrow> error + routed option" where
  "start_sync self device_name retry =
     (case get_device_by_name self device_name of
        None \<Rightarrow> Inr None
      | Some d \<Rightarrow>
          if preference d = BLUETOOTH
          then (case ble d of
                  None \<Rightarrow> Inl AttributeError
                | Some h \<Rightarrow> Inr (Some (Via_ble h (Start_sync retry))))
          else if preference d = WIFI
          then (case cloud d of
                  None \<Rightarrow> Inl AttributeError
                | Some h \<Rightarrow> Inr (Some (Via_cloud h (Start_sync retry))))
          else Inr None)"

definition start_map_sync :: "Mammotion \<Rightarrow> string \<Rightarrow> error + routed option" where
  "start_map_sync self device_name =
     (case get_device_by_name self device_name of
        None \<Rightarrow> Inr None
      | Some d \<Rightarrow>
          if preference d = BLUETOOTH
          then (case ble d of
                  None \<Rightarrow> Inl AttributeError
                | Some h \<Rightarrow> Inr (Some (Via_ble h Start_map_sync)))
          else if preference d = WIFI
          then (case cloud d of
                  None \<Rightarrow> Inl AttributeError
                | Some h \<Rightarrow> Inr (Some (Via_cloud h Start_map_sync)))
          else Inr None)"

text \<open>
  What the spec says reconciliation does with the registry entry of one recognized device
  of the account's list, in the spec's words: a device that is not yet in the registry is
  registered with a cloud handle under WIFI preference; an entry without a cloud handle gets
  one attached; an entry whose cloud handle is bound to a different broker connection than
  the current one is rebound to the current one. This is the specification that
  \<open>add_cloud_devices\<close> is compared with.
\<close>

definition reconcile_entry ::
  "nat \<Rightarrow> Device \<Rightarrow> MammotionMixedDeviceManager option \<Rightarrow> MammotionMixedDeviceManager" where
  "reconcile_entry current dev entry =
     (case entry of
        None \<Rightarrow> \<lparr>name = deviceName dev, p_ble_device = None,
                  p_cloud_device = Some \<lparr>mqtt = Some current, device = dev\<rparr>,
                  preference = WIFI\<rparr>
      | Some m \<Rightarrow>
          (case p_cloud_device m of
             None \<Rightarrow> m\<lparr>p_cloud_device := Some \<lparr>mqtt = Some current, device = dev\<rparr>\<rparr>
           | Some c \<Rightarrow>
               if mqtt c \<noteq> Some current
               then m\<lparr>p_cloud_device := Some (c\<lparr>mqtt := Some current\<rparr>)\<rparr>
               else m))"

text \<open>The state of a process that has not registered anything yet.\<close>

definition initial_Mammotion :: Mammotion where
  "initial_Mammotion =
     \<lparr>devices = [], mqtt_list = Map.empty, self_cloud_client = None,
      objects = (\<lambda>_. \<lparr>cloud_client = \<lparr>client_id = [], devices_by_account = []\<rparr>,
                       is_connected = False\<rparr>),
      next_ref = 0, calls = []\<rparr>"

section \<open>Facts about the assembler\<close>

lemma py_message_not_in_hashes [simp]:
  "py_not_in (Py_message m) (map (\<lambda>item. Py_int (hash item)) xs)"
  by (auto simp: py_not_in_def)

lemma add_hash_data_eq:
  "add_hash_data hash_dict hash_data =
     (case hash_dict (hash hash_data) of
        None \<Rightarrow> hash_dict(hash hash_data \<mapsto>
          \<lparr>FrameList_total_frame = total_frame hash_data, data = [hash_data, hash_data]\<rparr>)
      | Some frame_list \<Rightarrow> hash_dict(hash hash_data \<mapsto>
          frame_list\<lparr>data := data frame_list @ [hash_data]\<rparr>))"
  by (auto simp add: add_hash_data_def Let_def py_not_in_def split: option.split)

lemma category_update:
  "category self t = Some d \<Longrightarrow>
   category (update self g) t = Some (if type g = t then add_hash_data d g else d)"
  by (auto simp: category_def update_def Let_def split: if_splits)

lemma category_update_None:
  "category self t = None \<Longrightarrow> category (update self g) t = None"
  by (auto simp: category_def split: if_splits)

lemma add_hash_data_total_frame:
  "d h = Some fl \<Longrightarrow>
   \<exists>fl'. add_hash_data d g h = Some fl' \<and> FrameList_total_frame fl' = FrameList_total_frame fl"
  by (auto simp: add_hash_data_eq split: option.splits)

lemma add_hash_data_first:
  "d (hash g) = None \<Longrightarrow>
   \<exists>fl'. add_hash_data d g (hash g) = Some fl' \<and> FrameList_total_frame fl' = total_frame g"
  by (auto simp: add_hash_data_eq split: option.splits)

lemma update_all_total_frame:
  "category self t = Some d \<Longrightarrow> d h = Some fl \<Longrightarrow>
   \<exists>d' fl'. category (update_all self gs) t = Some d' \<and> d' h = Some fl' \<and>
      FrameList_total_frame fl' = FrameList_total_frame fl"
proof (induction gs arbitrary: self d fl)
  case Nil
  then show ?case by simp
next
  case (Cons g gs)
  let ?d1 = "if type g = t then add_hash_data d g else d"
  have c1: "category (update self g) t = Some ?d1"
    using Cons.prems(1) by (rule category_update)
  obtain fl1 where f1: "?d1 h = Some fl1"
    and t1: "FrameList_total_frame fl1 = FrameList_total_frame fl"
    using add_hash_data_total_frame [of d h fl g] Cons.prems(2) by (cases "type g = t") auto
  from Cons.IH [OF c1 f1] t1 show ?case by simp
qed

lemma add_hash_data_other_key:
  "h \<noteq> hash g \<Longrightarrow> add_hash_data d g h = d h"
  by (simp add: add_hash_data_eq split: option.split)

lemma add_hash_data_members:
  assumes "add_hash_data d g h = Some fl" and "x \<in> set (data fl)"
  shows "x = g \<and> h = hash g \<or> (\<exists>fl0. d h = Some fl0 \<and> x \<in> set (data fl0))"
proof (cases "h = hash g")
  case True
  with assms show ?thesis
    by (auto simp: add_hash_data_eq split: option.splits)
next
  case False
  with assms show ?thesis by (simp add: add_hash_data_other_key)
qed

lemma update_keeps_isolation:
  assumes inv: "\<forall>t d h fl x. category self t = Some d \<and> d h = Some fl \<and> x \<in> set (data fl)
                  \<longrightarrow> hash x = h \<and> type x = t"
  shows "\<forall>t d h fl x. category (update self g) t = Some d \<and> d h = Some fl \<and> x \<in> set (data fl)
                  \<longrightarrow> hash x = h \<and> type x = t"
proof (intro allI impI)
  fix t d h fl x
  assume a: "category (update self g) t = Some d \<and> d h = Some fl \<and> x \<in> set (data fl)"
  then obtain d0 where d0: "category self t = Some d0"
    using category_update_None [of self t g] by (cases "category self t") auto
  from category_update [OF d0, of g] a
  have d: "d = (if type g = t then add_hash_data d0 g else d0)" by simp
  show "hash x = h \<and> type x = t"
  proof (cases "type g = t")
    case True
    with d a have "add_hash_data d0 g h = Some fl" "x \<in> set (data fl)" by simp_all
    from add_hash_data_members [OF this] inv d0 True show ?thesis by blast
  next
    case False
    with d have "d = d0" by simp
    with a have "d0 h = Some fl" "x \<in> set (data fl)" by simp_all
    with inv d0 show ?thesis by blast
  qed
qed

lemma update_all_keeps_isolation:
  "\<forall>t d h fl x. category self t = Some d \<and> d h = Some fl \<and> x \<in> set (data fl)
       \<longrightarrow> hash x = h \<and> type x = t \<Longrightarrow>
   \<forall>t d h fl x. category (update_all self gs) t = Some d \<and> d h = Some fl \<and> x \<in> set (data fl)
       \<longrightarrow> hash x = h \<and> type x = t"
proof (induction gs arbitrary: self)
  case Nil
  then show ?case by simp
next
  case (Cons g gs)
  from Cons.IH [OF update_keeps_isolation [OF Cons.prems]] show ?case by simp
qed

subsection \<open>Duplicate fragments\<close>

text \<open>
  Claim C1 says that ingestion deduplicates by full-content equality: ingesting a fragment
  twice leaves the sequence as long as ingesting it once, and ingesting A, B, A under one
  hash and category stores exactly [A, B]. The membership test of \<^verbatim>\<open>_add_hash_data\<close>
  looks for the fragment among the hash values of the stored fragments, where it never is
  (lemma \<open>py_message_not_in_hashes\<close>), so every ingest appends (lemma
  \<open>add_hash_data_eq\<close>). Evaluated on the empty assembler: one ingest of A stores [A, A],
  two store three fragments, and A, B, A stores [A, A, B, A].
\<close>

theorem duplicate_fragment_stored_again:
  "map_option data (area (update_all empty_HashList
      [\<lparr>type = 0, hash = 1, total_frame = 3, content = ''A''\<rparr>]) 1)
     = Some [\<lparr>type = 0, hash = 1, total_frame = 3, content = ''A''\<rparr>,
             \<lparr>type = 0, hash = 1, total_frame = 3, content = ''A''\<rparr>]
   \<and> map_option (length \<circ> data) (area (update_all empty_HashList
      [\<lparr>type = 0, hash = 1, total_frame = 3, content = ''A''\<rparr>,
       \<lparr>type = 0, hash = 1, total_frame = 3, content = ''A''\<rparr>]) 1) = Some 3
   \<and> map_option data (area (update_all empty_HashList
      [\<lparr>type = 0, hash = 1, total_frame = 3, content = ''A''\<rparr>,
       \<lparr>type = 0, hash = 1, total_frame = 3, content = ''B''\<rparr>,
       \<lparr>type = 0, hash = 1, total_frame = 3, content = ''A''\<rparr>]) 1)
     = Some [\<lparr>type = 0, hash = 1, total_frame = 3, content = ''A''\<rparr>,
             \<lparr>type = 0, hash = 1, total_frame = 3, content = ''A''\<rparr>,
             \<lparr>type = 0, hash = 1, total_frame = 3, content = ''B''\<rparr>,
             \<lparr>type = 0, hash = 1, total_frame = 3, content = ''A''\<rparr>]"
  by (simp add: update_def empty_HashList_def add_hash_data_def py_not_in_def)

subsection \<open>Stability of \<open>total_frame\<close>\<close>

text \<open>
  Claim C8: the first fragment ingested for a hash fixes the \<open>total_frame\<close> of that frame
  set, and no later ingest changes it, whatever \<open>total_frame\<close> the later fragment declares.
  First part: when the dictionary of the fragment's category has no entry for its hash,
  then after ingesting it and any further fragments the entry carries the fragment's
  \<open>total_frame\<close>. Second part: an entry that exists keeps its \<open>total_frame\<close> through any
  sequence of ingests.
\<close>

theorem total_frame_stability:
  "(category self (type f) = Some d \<and> d (hash f) = None \<longrightarrow>
      (\<exists>d' fl. category (update_all (update self f) gs) (type f) = Some d' \<and>
         d' (hash f) = Some fl \<and> FrameList_total_frame fl = total_frame f))
   \<and> (category self t = Some d \<and> d h = Some fl0 \<longrightarrow>
      (\<exists>d' fl. category (update_all self gs) t = Some d' \<and>
         d' h = Some fl \<and> FrameList_total_frame fl = FrameList_total_frame fl0))"
proof (intro conjI impI)
  assume a: "category self (type f) = Some d \<and> d (hash f) = None"
  then have c1: "category (update self f) (type f) = Some (add_hash_data d f)"
    using category_update [of self "type f" d f] by simp
  from a obtain fl1 where f1: "add_hash_data d f (hash f) = Some fl1"
    and t1: "FrameList_total_frame fl1 = total_frame f"
    using add_hash_data_first [of d f] by auto
  from update_all_total_frame [OF c1 f1, of gs] t1
  show "\<exists>d' fl. category (update_all (update self f) gs) (type f) = Some d' \<and>
         d' (hash f) = Some fl \<and> FrameList_total_frame fl = total_frame f"
    by auto
next
  assume "category self t = Some d \<and> d h = Some fl0"
  then show "\<exists>d' fl. category (update_all self gs) t = Some d' \<and>
         d' h = Some fl \<and> FrameList_total_frame fl = FrameList_total_frame fl0"
    using update_all_total_frame [of self t d h fl0 gs] by auto
qed

theorem total_frame_stability_witness:
  "category (empty_HashList :: string HashList) 0 = Some Map.empty
   \<and> (\<exists>d' fl. category (update_all (update empty_HashList
          \<lparr>type = 0, hash = 1, total_frame = 3, content = ''A''\<rparr>)
          [\<lparr>type = 0, hash = 1, total_frame = 5, content = ''B''\<rparr>]) 0 = Some d'
        \<and> d' 1 = Some fl \<and> FrameList_total_frame fl = 3)"
  using total_frame_stability [where self = "empty_HashList :: string HashList"
      and f = "\<lparr>type = 0, hash = 1, total_frame = 3, content = ''A''\<rparr>"
      and d = Map.empty
      and gs = "[\<lparr>type = 0, hash = 1, total_frame = 5, content = ''B''\<rparr>]"
      and t = 0 and h = 7 and ?fl0.0 = "\<lparr>FrameList_total_frame = 3, data = []\<rparr>"]
  by (simp add: category_def empty_HashList_def)

subsection \<open>Isolation by category and hash\<close>

text \<open>
  Claim C9: an ingest changes only the dictionary of the fragment's own category (area is
  type 0, obstacle type 1, path type 2) and there only the entry of the fragment's hash; a
  fragment of any other type changes nothing (and the model has no error result, as the
  code has no raise); and when every stored fragment sits under its own hash in the
  dictionary of its own type, this is still so after any sequence of ingests, so fragments
  of different hashes never share a frame set and fragments of different categories are in
  different dictionaries.
\<close>

theorem ingest_touches_own_category_and_hash:
  "(type g = 0 \<longrightarrow> obstacle (update self g) = obstacle self \<and> path (update self g) = path self
       \<and> (\<forall>h. h \<noteq> hash g \<longrightarrow> area (update self g) h = area self h))
   \<and> (type g = 1 \<longrightarrow> area (update self g) = area self \<and> path (update self g) = path self
       \<and> (\<forall>h. h \<noteq> hash g \<longrightarrow> obstacle (update self g) h = obstacle self h))
   \<and> (type g = 2 \<longrightarrow> area (update self g) = area self \<and> obstacle (update self g) = obstacle self
       \<and> (\<forall>h. h \<noteq> hash g \<longrightarrow> path (update self g) h = path self h))
   \<and> (type g \<noteq> 0 \<and> type g \<noteq> 1 \<and> type g \<noteq> 2 \<longrightarrow> update self g = self)
   \<and> ((\<forall>t d h fl x. category self t = Some d \<and> d h = Some fl \<and> x \<in> set (data fl)
           \<longrightarrow> hash x = h \<and> type x = t)
        \<longrightarrow> (\<forall>t d h fl x. category (update_all self gs) t = Some d \<and> d h = Some fl
                 \<and> x \<in> set (data fl) \<longrightarrow> hash x = h \<and> type x = t))"
proof (intro conjI)
  show "type g = 0 \<longrightarrow> obstacle (update self g) = obstacle self \<and> path (update self g) = path self
       \<and> (\<forall>h. h \<noteq> hash g \<longrightarrow> area (update self g) h = area self h)"
    by (simp add: update_def add_hash_data_other_key)
  show "type g = 1 \<longrightarrow> area (update self g) = area self \<and> path (update self g) = path self
       \<and> (\<forall>h. h \<noteq> hash g \<longrightarrow> obstacle (update self g) h = obstacle self h)"
    by (simp add: update_def add_hash_data_other_key)
  show "type g = 2 \<longrightarrow> area (update self g) = area self \<and> obstacle (update self g) = obstacle self
       \<and> (\<forall>h. h \<noteq> hash g \<longrightarrow> path (update self g) h = path self h)"
    by (simp add: update_def add_hash_data_other_key)
  show "type g \<noteq> 0 \<and> type g \<noteq> 1 \<and> type g \<noteq> 2 \<longrightarrow> update self g = self"
    by (simp add: update_def)
  show "(\<forall>t d h fl x. category self t = Some d \<and> d h = Some fl \<and> x \<in> set (data fl)
           \<longrightarrow> hash x = h \<and> type x = t)
        \<longrightarrow> (\<forall>t d h fl x. category (update_all self gs) t = Some d \<and> d h = Some fl
                 \<and> x \<in> set (data fl) \<longrightarrow> hash x = h \<and> type x = t)"
    using update_all_keeps_isolation [of self gs] by blast
qed

theorem ingest_touches_own_category_and_hash_witness:
  "obstacle (update empty_HashList \<lparr>type = 0, hash = 1, total_frame = 3, content = ''A''\<rparr>) = Map.empty
   \<and> path (update empty_HashList \<lparr>type = 0, hash = 1, total_frame = 3, content = ''A''\<rparr>) = Map.empty
   \<and> area (update empty_HashList \<lparr>type = 0, hash = 1, total_frame = 3, content = ''A''\<rparr>) 2 = None
   \<and> area (update empty_HashList \<lparr>type = 1, hash = 1, total_frame = 3, content = ''A''\<rparr>) = Map.empty
   \<and> obstacle (update empty_HashList \<lparr>type = 1, hash = 1, total_frame = 3, content = ''A''\<rparr>) 2 = None
   \<and> area (update empty_HashList \<lparr>type = 2, hash = 1, total_frame = 3, content = ''A''\<rparr>) = Map.empty
   \<and> path (update empty_HashList \<lparr>type = 2, hash = 1, total_frame = 3, content = ''A''\<rparr>) 2 = None
   \<and> update empty_HashList \<lparr>type = 7, hash = 1, total_frame = 3, content = ''A''\<rparr> = empty_HashList
   \<and> category (update_all empty_HashList
         [\<lparr>type = 0, hash = 1, total_frame = 3, content = ''A''\<rparr>,
          \<lparr>type = 2, hash = 1, total_frame = 3, content = ''P''\<rparr>]) 2
       = Some [1 \<mapsto> \<lparr>FrameList_total_frame = 3,
                       data = [\<lparr>type = 2, hash = 1, total_frame = 3, content = ''P''\<rparr>,
                               \<lparr>type = 2, hash = 1, total_frame = 3, content = ''P''\<rparr>]\<rparr>]
   \<and> hash \<lparr>type = 2, hash = 1, total_frame = 3, content = ''P''\<rparr> = 1
   \<and> type \<lparr>type = 2, hash = 1, total_frame = 3, content = ''P''\<rparr> = 2"
proof -
  let ?A = "\<lparr>type = 0, hash = 1, total_frame = 3, content = ''A''\<rparr>"
  let ?P = "\<lparr>type = 2, hash = 1, total_frame = 3, content = ''P''\<rparr>"
  let ?fl = "\<lparr>FrameList_total_frame = 3, data = [?P, ?P]\<rparr>"
  have e: "area (empty_HashList :: string HashList) = Map.empty"
    "path (empty_HashList :: string HashList) = Map.empty"
    "obstacle (empty_HashList :: string HashList) = Map.empty"
    by (simp_all add: empty_HashList_def)
  have inv0: "\<forall>t d h fl x. category (empty_HashList :: string HashList) t = Some d \<and> d h = Some fl
        \<and> x \<in> set (data fl) \<longrightarrow> hash x = h \<and> type x = t"
    by (auto simp: category_def e split: if_splits)
  have c: "category (update_all empty_HashList [?A, ?P]) 2 = Some [1 \<mapsto> ?fl]"
    by (simp add: category_def update_def empty_HashList_def add_hash_data_eq)
  note T = ingest_touches_own_category_and_hash
  from T [where self = "empty_HashList :: string HashList" and g = ?A and gs = "[?A, ?P]"] inv0
  have all: "\<forall>t d h fl x. category (update_all empty_HashList [?A, ?P]) t = Some d \<and> d h = Some fl
        \<and> x \<in> set (data fl) \<longrightarrow> hash x = h \<and> type x = t"
    and a0: "obstacle (update empty_HashList ?A) = Map.empty"
      "path (update empty_HashList ?A) = Map.empty"
      "area (update empty_HashList ?A) 2 = None"
    by (simp_all add: e)
  from all c have p: "hash ?P = 1 \<and> type ?P = 2"
    by (elim allE [where x = 2] allE [where x = "[1 \<mapsto> ?fl]"] allE [where x = 1]
        allE [where x = ?fl] allE [where x = ?P]) simp
  from T [where self = "empty_HashList :: string HashList"
      and g = "\<lparr>type = 1, hash = 1, total_frame = 3, content = ''A''\<rparr>" and gs = "[]"]
  have a1: "area (update empty_HashList \<lparr>type = 1, hash = 1, total_frame = 3, content = ''A''\<rparr>) = Map.empty"
    "obstacle (update empty_HashList \<lparr>type = 1, hash = 1, total_frame = 3, content = ''A''\<rparr>) 2 = None"
    by (simp_all add: e)
  from T [where self = "empty_HashList :: string HashList"
      and g = "\<lparr>type = 2, hash = 1, total_frame = 3, content = ''A''\<rparr>" and gs = "[]"]
  have a2: "area (update empty_HashList \<lparr>type = 2, hash = 1, total_frame = 3, content = ''A''\<rparr>) = Map.empty"
    "path (update empty_HashList \<lparr>type = 2, hash = 1, total_frame = 3, content = ''A''\<rparr>) 2 = None"
    by (simp_all add: e)
  from T [where self = "empty_HashList :: string HashList"
      and g = "\<lparr>type = 7, hash = 1, total_frame = 3, content = ''A''\<rparr>" and gs = "[]"]
  have a7: "update empty_HashList \<lparr>type = 7, hash = 1, total_frame = 3, content = ''A''\<rparr> = empty_HashList"
    by simp
  from a0 a1 a2 a7 c p show ?thesis by blast
qed

section \<open>Facts about the registry\<close>

lemma map_of_add_device_other:
  "k \<noteq> name new \<Longrightarrow> map_of (add_device devs new) k = map_of devs k"
  by (simp add: add_device_def Let_def update_conv' split: option.split)

lemma map_of_add_device_new:
  "map_of devs (name new) = None \<Longrightarrow> map_of (add_device devs new) (name new) = Some new"
  by (simp add: add_device_def update_conv')

lemma distinct_add_device:
  "distinct (map fst devs) \<Longrightarrow> distinct (map fst (add_device devs new))"
  by (simp add: add_device_def Let_def distinct_update split: option.split)

lemma filter_shares_mqtt_empty:
  assumes "distinct (map fst devs)"
  shows "filter (shares_mqtt b) (AList.delete n devs) = []
     \<longleftrightarrow> \<not> (\<exists>k d c. k \<noteq> n \<and> map_of devs k = Some d \<and> cloud d = Some c \<and> mqtt c = b)"
proof -
  have "filter (shares_mqtt b) (AList.delete n devs) = []
     \<longleftrightarrow> (\<forall>item \<in> set (AList.delete n devs). \<not> shares_mqtt b item)"
    by (simp add: filter_empty_conv)
  also have "\<dots> \<longleftrightarrow> (\<forall>k d. k \<noteq> n \<and> (k, d) \<in> set devs \<longrightarrow> \<not> shares_mqtt b (k, d))"
    by (auto simp: AList.delete_eq)
  also have "\<dots> \<longleftrightarrow> (\<forall>k d. k \<noteq> n \<and> map_of devs k = Some d \<longrightarrow> \<not> shares_mqtt b (k, d))"
    using assms by (auto dest: map_of_SomeD)
  also have "\<dots> \<longleftrightarrow> \<not> (\<exists>k d c. k \<noteq> n \<and> map_of devs k = Some d \<and> cloud d = Some c \<and> mqtt c = b)"
    by (auto simp: shares_mqtt_def split: option.splits)
  finally show ?thesis .
qed

lemma remove_device_result:
  assumes "distinct (map fst devs)"
    and "map_of devs n = Some removed"
    and "cloud removed = Some handle"
    and "mqtt handle = Some broker"
  shows "\<exists>devs'. remove_device devs n =
            Inr (devs', if (\<exists>k d c. k \<noteq> n \<and> map_of devs k = Some d \<and> cloud d = Some c
                              \<and> mqtt c = Some broker)
                        then None else Some broker)
          \<and> map_of devs' n = None
          \<and> (\<forall>k. k \<noteq> n \<longrightarrow> map_of devs' k = map_of devs k)"
proof -
  have hc: "has_cloud removed"
    using assms(3) by (simp add: has_cloud_def cloud_def)
  show ?thesis
    using assms(2-4) hc filter_shares_mqtt_empty [OF assms(1), of "Some broker" n]
    by (simp add: remove_device_def Let_def delete_conv')
qed

lemma remove_device_without_cloud:
  assumes "map_of devs n = Some removed" and "cloud removed = None"
  shows "remove_device devs n = Inr (AList.delete n devs, None)"
  using assms by (simp add: remove_device_def has_cloud_def cloud_def)

lemma init_cloud_only:
  "MammotionMixedDeviceManager_init n (Some dev) None (Some r) WIFI =
     \<lparr>name = n, p_ble_device = None, p_cloud_device = Some \<lparr>mqtt = Some r, device = dev\<rparr>,
      preference = WIFI\<rparr>"
  by (simp add: MammotionMixedDeviceManager_init_def add_ble_def add_cloud_def)

lemma add_cloud_device_result:
  "\<exists>devs1. add_cloud_device devs r dev = Inr devs1
     \<and> map_of devs1 =
         (if startswith (deviceName dev) [''Luba-'', ''Yuka-'']
          then (map_of devs)(deviceName dev \<mapsto> reconcile_entry r dev (map_of devs (deviceName dev)))
          else map_of devs)"
proof (cases "startswith (deviceName dev) [''Luba-'', ''Yuka-'']")
  case False
  then show ?thesis by (simp add: add_cloud_device_def Let_def)
next
  case rec: True
  show ?thesis
  proof (cases "map_of devs (deviceName dev)")
    case None
    then show ?thesis
      using rec
      by (simp add: add_cloud_device_def get_device_def init_cloud_only add_device_def
          update_conv' reconcile_entry_def)
  next
    case (Some m)
    show ?thesis
    proof (cases "p_cloud_device m")
      case None
      with Some rec show ?thesis
        by (simp add: add_cloud_device_def get_device_def cloud_def add_cloud_def
            update_conv' reconcile_entry_def)
    next
      case (Some c)
      note c = this
      show ?thesis
      proof (cases "mqtt c = Some r")
        case True
        with c \<open>map_of devs (deviceName dev) = Some m\<close> rec show ?thesis
          by (auto simp: add_cloud_device_def get_device_def cloud_def reconcile_entry_def
              map_upd_triv)
      next
        case False
        with c \<open>map_of devs (deviceName dev) = Some m\<close> rec show ?thesis
          by (auto simp: add_cloud_device_def get_device_def cloud_def reconcile_entry_def
              replace_mqtt_def update_conv')
      qed
    qed
  qed
qed

lemma reconcile_entry_again:
  "reconcile_entry r dev' (Some (reconcile_entry r dev e)) = reconcile_entry r dev e"
  by (simp add: reconcile_entry_def split: option.splits)

lemma add_cloud_devices_loop_result:
  "\<exists>devs'. add_cloud_devices_loop devs r ds = Inr devs'
     \<and> (\<forall>n. map_of devs' n =
          (case find (\<lambda>dev. deviceName dev = n) ds of
             None \<Rightarrow> map_of devs n
           | Some dev \<Rightarrow>
               if startswith n [''Luba-'', ''Yuka-'']
               then Some (reconcile_entry r dev (map_of devs n))
               else map_of devs n))"
proof (induction ds arbitrary: devs)
  case Nil
  then show ?case by simp
next
  case (Cons dev ds)
  obtain devs1 where s: "add_cloud_device devs r dev = Inr devs1"
    and m1: "map_of devs1 =
         (if startswith (deviceName dev) [''Luba-'', ''Yuka-'']
          then (map_of devs)(deviceName dev \<mapsto> reconcile_entry r dev (map_of devs (deviceName dev)))
          else map_of devs)"
    using add_cloud_device_result [of devs r dev] by blast
  obtain devs' where l: "add_cloud_devices_loop devs1 r ds = Inr devs'"
    and m': "\<And>n. map_of devs' n =
          (case find (\<lambda>dev. deviceName dev = n) ds of
             None \<Rightarrow> map_of devs1 n
           | Some dev \<Rightarrow>
               if startswith n [''Luba-'', ''Yuka-'']
               then Some (reconcile_entry r dev (map_of devs1 n))
               else map_of devs1 n)"
    using Cons.IH [of devs1] by blast
  have "add_cloud_devices_loop devs r (dev # ds) = Inr devs'"
    using s l by simp
  moreover have "map_of devs' n =
          (case find (\<lambda>d. deviceName d = n) (dev # ds) of
             None \<Rightarrow> map_of devs n
           | Some d \<Rightarrow>
               if startswith n [''Luba-'', ''Yuka-'']
               then Some (reconcile_entry r d (map_of devs n))
               else map_of devs n)" for n
  proof (cases "deviceName dev = n")
    case False
    then have "map_of devs1 n = map_of devs n" by (simp add: m1)
    with False show ?thesis by (simp add: m' split: option.split)
  next
    case True
    show ?thesis
    proof (cases "startswith n [''Luba-'', ''Yuka-'']")
      case False
      with True have "map_of devs1 n = map_of devs n" by (simp add: m1)
      with True False show ?thesis by (simp add: m' split: option.split)
    next
      case rec: True
      with True have "map_of devs1 n = Some (reconcile_entry r dev (map_of devs n))"
        by (auto simp: m1)
      with True rec show ?thesis
        by (simp add: m' reconcile_entry_again split: option.split)
    qed
  qed
  ultimately show ?case by blast
qed

lemma add_cloud_devices_only_registry:
  "\<exists>devs'. add_cloud_devices self r = Inr (self\<lparr>devices := devs'\<rparr>)"
  using add_cloud_devices_loop_result
    [of "devices self" r "devices_by_account (cloud_client (objects self r))"]
  by (auto simp: add_cloud_devices_def)

lemma routing_absent_handle_raises:
  assumes "map_of (devices self) n = Some d"
    and "preference d = WIFI \<and> cloud d = None \<or> preference d = BLUETOOTH \<and> ble d = None"
  shows "send_command self n key = Inl AttributeError"
    and "send_command_with_args self n key kwargs = Inl AttributeError"
    and "start_sync self n retry = Inl AttributeError"
    and "start_map_sync self n = Inl AttributeError"
  using assms
  by (auto simp: send_command_def send_command_with_args_def start_sync_def start_map_sync_def
      get_device_by_name_def get_device_def)

subsection \<open>Routing to an unknown device\<close>

text \<open>
  Claim C2 says that a routing operation called with a device name that is not in the
  registry raises \<^verbatim>\<open>LookupError\<close> at once, and that routing to a registered device whose
  selected handle is absent fails with an error of the \<^verbatim>\<open>LookupError\<close> class. The code
  guards each operation with \<^verbatim>\<open>if device:\<close> and has no raise: for an unknown name the
  operation returns \<^verbatim>\<open>None\<close>, and with \<^verbatim>\<open>WIFI\<close> preference and no cloud handle the method
  call on \<^verbatim>\<open>None\<close> raises \<^verbatim>\<open>AttributeError\<close>, which is not a \<^verbatim>\<open>LookupError\<close>.
\<close>

theorem routing_unknown_device_counterexample:
  "send_command initial_Mammotion ''Luba-1'' ''get_report_cfg'' = Inr None
   \<and> \<not> (\<exists>e. send_command initial_Mammotion ''Luba-1'' ''get_report_cfg'' = Inl e \<and> is_LookupError e)
   \<and> send_command
        (initial_Mammotion\<lparr>devices := [(''Luba-1'',
           \<lparr>name = ''Luba-1'', p_ble_device = Some \<lparr>raw_device = \<lparr>BLEDevice_name = ''Luba-1'', address = ''AA:BB''\<rparr>\<rparr>,
            p_cloud_device = None, preference = WIFI\<rparr>)]\<rparr>)
        ''Luba-1'' ''get_report_cfg'' = Inl AttributeError
   \<and> \<not> is_LookupError AttributeError"
  by (simp add: send_command_def get_device_by_name_def get_device_def initial_Mammotion_def cloud_def)

text \<open>
  Claim C2 as amended: each of the four routing operations, called with a device name that
  is not in the registry, returns \<^verbatim>\<open>None\<close> without invoking a transport handle and without
  raising.
\<close>

theorem routing_unknown_device_returns_None:
  "map_of (devices self) n = None \<longrightarrow>
     send_command self n key = Inr None
     \<and> send_command_with_args self n key kwargs = Inr None
     \<and> start_sync self n retry = Inr None
     \<and> start_map_sync self n = Inr None"
  by (simp add: send_command_def send_command_with_args_def start_sync_def start_map_sync_def
      get_device_by_name_def get_device_def)

theorem routing_unknown_device_returns_None_witness:
  "map_of (devices initial_Mammotion) ''Luba-1'' = None
   \<and> send_command initial_Mammotion ''Luba-1'' ''get_report_cfg'' = Inr None
   \<and> send_command_with_args initial_Mammotion ''Luba-1'' ''set_blade_height'' [(''height'', ''55'')] = Inr None
   \<and> start_sync initial_Mammotion ''Luba-1'' 0 = Inr None
   \<and> start_map_sync initial_Mammotion ''Luba-1'' = Inr None"
  using routing_unknown_device_returns_None [of initial_Mammotion "''Luba-1''" "''get_report_cfg''"
      "[(''height'', ''55'')]" 0]
    routing_unknown_device_returns_None [of initial_Mammotion "''Luba-1''" "''set_blade_height''"
      "[(''height'', ''55'')]" 0]
  by (simp add: initial_Mammotion_def)

subsection \<open>Routing under the preference \<open>EITHER\<close>\<close>

text \<open>
  Claim C10: for a registered device whose preference is \<open>EITHER\<close>, each of the four
  routing operations returns \<^verbatim>\<open>None\<close> without invoking the radio or the cloud handle and
  without raising.
\<close>

theorem routing_EITHER_returns_None:
  "map_of (devices self) n = Some d \<and> preference d = EITHER \<longrightarrow>
     send_command self n key = Inr None
     \<and> send_command_with_args self n key kwargs = Inr None
     \<and> start_sync self n retry = Inr None
     \<and> start_map_sync self n = Inr None"
  by (simp add: send_command_def send_command_with_args_def start_sync_def start_map_sync_def
      get_device_by_name_def get_device_def)

theorem routing_EITHER_returns_None_witness:
  "map_of (devices (add_ble_device initial_Mammotion
       (Some \<lparr>BLEDevice_name = ''Luba-1'', address = ''AA:BB''\<rparr>) EITHER)) ''Luba-1''
     = Some \<lparr>name = ''Luba-1'',
             p_ble_device = Some \<lparr>raw_device = \<lparr>BLEDevice_name = ''Luba-1'', address = ''AA:BB''\<rparr>\<rparr>,
             p_cloud_device = None, preference = EITHER\<rparr>
   \<and> send_command (add_ble_device initial_Mammotion
       (Some \<lparr>BLEDevice_name = ''Luba-1'', address = ''AA:BB''\<rparr>) EITHER) ''Luba-1'' ''get_report_cfg'' = Inr None
   \<and> send_command_with_args (add_ble_device initial_Mammotion
       (Some \<lparr>BLEDevice_name = ''Luba-1'', address = ''AA:BB''\<rparr>) EITHER) ''Luba-1'' ''set_blade_height'' [(''height'', ''55'')] = Inr None
   \<and> start_sync (add_ble_device initial_Mammotion
       (Some \<lparr>BLEDevice_name = ''Luba-1'', address = ''AA:BB''\<rparr>) EITHER) ''Luba-1'' 0 = Inr None
   \<and> start_map_sync (add_ble_device initial_Mammotion
       (Some \<lparr>BLEDevice_name = ''Luba-1'', address = ''AA:BB''\<rparr>) EITHER) ''Luba-1'' = Inr None"
proof -
  let ?self = "add_ble_device initial_Mammotion
       (Some \<lparr>BLEDevice_name = ''Luba-1'', address = ''AA:BB''\<rparr>) EITHER"
  let ?d = "\<lparr>name = ''Luba-1'',
             p_ble_device = Some \<lparr>raw_device = \<lparr>BLEDevice_name = ''Luba-1'', address = ''AA:BB''\<rparr>\<rparr>,
             p_cloud_device = None, preference = EITHER\<rparr>"
  have d: "map_of (devices ?self) ''Luba-1'' = Some ?d"
    by (simp add: add_ble_device_def initial_Mammotion_def add_device_def
        MammotionMixedDeviceManager_init_def add_ble_def add_cloud_def)
  from d routing_EITHER_returns_None [of ?self "''Luba-1''" ?d "''get_report_cfg''" "[(''height'', ''55'')]" 0]
    routing_EITHER_returns_None [of ?self "''Luba-1''" ?d "''set_blade_height''" "[(''height'', ''55'')]" 0]
  show ?thesis by simp
qed

subsection \<open>Registration of a known device name\<close>

text \<open>
  Claim C3: registering a descriptor under a name that is already registered replaces only
  the handle of the kind the descriptor supplies. The entry keeps its name and its
  preference; its radio handle is the new one when the descriptor has one and the old one
  otherwise, and likewise its cloud handle; no other entry changes. So a cloud handle added
  to a device with a radio handle leaves the radio handle, and a radio handle added
  afterwards leaves the cloud handle.
\<close>

theorem add_device_replaces_supplied_kind_only:
  assumes "map_of devs (name new) = Some old"
  shows "(\<exists>merged. map_of (add_device devs new) (name new) = Some merged
            \<and> name merged = name old
            \<and> preference merged = preference old
            \<and> ble merged = (if has_ble new then ble new else ble old)
            \<and> cloud merged = (if has_cloud new then cloud new else cloud old))
         \<and> (\<forall>k. k \<noteq> name new \<longrightarrow> map_of (add_device devs new) k = map_of devs k)"
proof
  show "\<exists>merged. map_of (add_device devs new) (name new) = Some merged
            \<and> name merged = name old
            \<and> preference merged = preference old
            \<and> ble merged = (if has_ble new then ble new else ble old)
            \<and> cloud merged = (if has_cloud new then cloud new else cloud old)"
    using assms
    by (simp add: add_device_def Let_def update_conv' replace_cloud_def replace_ble_def
        ble_def cloud_def)
  show "\<forall>k. k \<noteq> name new \<longrightarrow> map_of (add_device devs new) k = map_of devs k"
    by (simp add: map_of_add_device_other)
qed

theorem add_device_replaces_supplied_kind_only_witness:
  "map_of (devices (add_ble_device initial_Mammotion
       (Some \<lparr>BLEDevice_name = ''Luba-1'', address = ''AA:BB''\<rparr>) BLUETOOTH)) ''Luba-1''
     = Some \<lparr>name = ''Luba-1'',
             p_ble_device = Some \<lparr>raw_device = \<lparr>BLEDevice_name = ''Luba-1'', address = ''AA:BB''\<rparr>\<rparr>,
             p_cloud_device = None, preference = BLUETOOTH\<rparr>
   \<and> (\<exists>merged. map_of (add_device
          (devices (add_ble_device initial_Mammotion
             (Some \<lparr>BLEDevice_name = ''Luba-1'', address = ''AA:BB''\<rparr>) BLUETOOTH))
          (MammotionMixedDeviceManager_init ''Luba-1''
             (Some \<lparr>deviceName = ''Luba-1'', iotId = ''iot1''\<rparr>) None (Some 0) WIFI)) ''Luba-1''
        = Some merged
        \<and> name merged = ''Luba-1''
        \<and> preference merged = BLUETOOTH
        \<and> ble merged = Some \<lparr>raw_device = \<lparr>BLEDevice_name = ''Luba-1'', address = ''AA:BB''\<rparr>\<rparr>
        \<and> cloud merged = Some \<lparr>mqtt = Some 0, device = \<lparr>deviceName = ''Luba-1'', iotId = ''iot1''\<rparr>\<rparr>)"
proof -
  let ?devs = "devices (add_ble_device initial_Mammotion
       (Some \<lparr>BLEDevice_name = ''Luba-1'', address = ''AA:BB''\<rparr>) BLUETOOTH)"
  let ?old = "\<lparr>name = ''Luba-1'',
             p_ble_device = Some \<lparr>raw_device = \<lparr>BLEDevice_name = ''Luba-1'', address = ''AA:BB''\<rparr>\<rparr>,
             p_cloud_device = None, preference = BLUETOOTH\<rparr>"
  let ?new = "MammotionMixedDeviceManager_init ''Luba-1''
             (Some \<lparr>deviceName = ''Luba-1'', iotId = ''iot1''\<rparr>) None (Some 0) WIFI"
  have n: "name ?new = ''Luba-1''" "has_cloud ?new" "\<not> has_ble ?new"
    "cloud ?new = Some \<lparr>mqtt = Some 0, device = \<lparr>deviceName = ''Luba-1'', iotId = ''iot1''\<rparr>\<rparr>"
    by (simp_all add: MammotionMixedDeviceManager_init_def add_ble_def add_cloud_def
        has_cloud_def has_ble_def cloud_def)
  have d: "map_of ?devs ''Luba-1'' = Some ?old"
    by (simp add: add_ble_device_def initial_Mammotion_def add_device_def
        MammotionMixedDeviceManager_init_def add_ble_def add_cloud_def)
  then have "map_of ?devs (name ?new) = Some ?old" by (simp only: n)
  from add_device_replaces_supplied_kind_only [OF this] d show ?thesis
    by (simp add: n ble_def)
qed

subsection \<open>Removal and broker teardown\<close>

text \<open>
  Claim C4: \<open>remove_device\<close> removes the entry of a registered name, whether the entry
  has a cloud handle or only a radio handle, and leaves the other entries as they are. When
  the removed entry has a cloud handle, \<^verbatim>\<open>disconnect()\<close> is called on the broker connection
  the handle is bound to if and only if no other entry of the registry has a cloud handle
  bound to the same connection object: the call is recorded exactly then. For an entry
  without a cloud handle no call is recorded. The rest of the state is unchanged. The
  registry is a dictionary, so its keys are distinct; a cloud handle is bound to a broker
  connection.
\<close>

theorem remove_device_tears_down_unshared_broker:
  assumes "distinct (map fst (devices self))"
    and "map_of (devices self) n = Some removed"
    and "\<forall>handle. cloud removed = Some handle \<longrightarrow> mqtt handle = Some broker"
  shows "\<exists>devs'. Mammotion_remove_device self n =
            Inr (self\<lparr>devices := devs',
                      calls := (if cloud removed = None
                                   \<or> (\<exists>k d c. k \<noteq> n \<and> map_of (devices self) k = Some d
                                         \<and> cloud d = Some c \<and> mqtt c = Some broker)
                                then calls self else calls self @ [Disconnect broker])\<rparr>)
          \<and> map_of devs' n = None
          \<and> (\<forall>k. k \<noteq> n \<longrightarrow> map_of devs' k = map_of (devices self) k)"
proof (cases "cloud removed")
  case None
  from remove_device_without_cloud [OF assms(2) None]
  have "Mammotion_remove_device self n = Inr (self\<lparr>devices := AList.delete n (devices self)\<rparr>)"
    by (simp add: Mammotion_remove_device_def)
  with None have "Mammotion_remove_device self n =
            Inr (self\<lparr>devices := AList.delete n (devices self),
                      calls := (if cloud removed = None
                                   \<or> (\<exists>k d c. k \<noteq> n \<and> map_of (devices self) k = Some d
                                         \<and> cloud d = Some c \<and> mqtt c = Some broker)
                                then calls self else calls self @ [Disconnect broker])\<rparr>)"
    by simp
  moreover have "map_of (AList.delete n (devices self)) n = None"
    by (simp add: delete_conv')
  moreover have "\<forall>k. k \<noteq> n \<longrightarrow> map_of (AList.delete n (devices self)) k = map_of (devices self) k"
    by (simp add: delete_conv')
  ultimately show ?thesis by blast
next
  case (Some handle)
  with assms(3) have b: "mqtt handle = Some broker" by simp
  obtain devs' where r: "remove_device (devices self) n =
            Inr (devs', if (\<exists>k d c. k \<noteq> n \<and> map_of (devices self) k = Some d \<and> cloud d = Some c
                              \<and> mqtt c = Some broker)
                        then None else Some broker)"
    and m: "map_of devs' n = None" "\<forall>k. k \<noteq> n \<longrightarrow> map_of devs' k = map_of (devices self) k"
    using remove_device_result [OF assms(1,2) Some b] by blast
  from r Some have "Mammotion_remove_device self n =
            Inr (self\<lparr>devices := devs',
                      calls := (if cloud removed = None
                                   \<or> (\<exists>k d c. k \<noteq> n \<and> map_of (devices self) k = Some d
                                         \<and> cloud d = Some c \<and> mqtt c = Some broker)
                                then calls self else calls self @ [Disconnect broker])\<rparr>)"
    by (simp add: Mammotion_remove_device_def)
  with m show ?thesis by blast
qed

theorem remove_device_tears_down_unshared_broker_witness:
  "Mammotion_remove_device (initial_Mammotion\<lparr>devices :=
      [(''Luba-1'', \<lparr>name = ''Luba-1'', p_ble_device = None,
          p_cloud_device = Some \<lparr>mqtt = Some 0, device = \<lparr>deviceName = ''Luba-1'', iotId = ''iot1''\<rparr>\<rparr>,
          preference = WIFI\<rparr>),
       (''Luba-2'', \<lparr>name = ''Luba-2'', p_ble_device = None,
          p_cloud_device = Some \<lparr>mqtt = Some 0, device = \<lparr>deviceName = ''Luba-2'', iotId = ''iot2''\<rparr>\<rparr>,
          preference = WIFI\<rparr>)]\<rparr>) ''Luba-1''
     = Inr (initial_Mammotion\<lparr>devices :=
        [(''Luba-2'', \<lparr>name = ''Luba-2'', p_ble_device = None,
          p_cloud_device = Some \<lparr>mqtt = Some 0, device = \<lparr>deviceName = ''Luba-2'', iotId = ''iot2''\<rparr>\<rparr>,
          preference = WIFI\<rparr>)]\<rparr>)
   \<and> Mammotion_remove_device (initial_Mammotion\<lparr>devices :=
        [(''Luba-2'', \<lparr>name = ''Luba-2'', p_ble_device = None,
          p_cloud_device = Some \<lparr>mqtt = Some 0, device = \<lparr>deviceName = ''Luba-2'', iotId = ''iot2''\<rparr>\<rparr>,
          preference = WIFI\<rparr>)]\<rparr>) ''Luba-2''
     = Inr (initial_Mammotion\<lparr>devices := [], calls := [Disconnect 0]\<rparr>)
   \<and> Mammotion_remove_device (initial_Mammotion\<lparr>devices :=
        [(''Luba-3'', \<lparr>name = ''Luba-3'',
          p_ble_device = Some \<lparr>raw_device = \<lparr>BLEDevice_name = ''Luba-3'', address = ''AA:BB''\<rparr>\<rparr>,
          p_cloud_device = None, preference = BLUETOOTH\<rparr>)]\<rparr>) ''Luba-3''
     = Inr (initial_Mammotion\<lparr>devices := []\<rparr>)"
proof -
  let ?h1 = "\<lparr>mqtt = Some 0, device = \<lparr>deviceName = ''Luba-1'', iotId = ''iot1''\<rparr>\<rparr>"
  let ?h2 = "\<lparr>mqtt = Some 0, device = \<lparr>deviceName = ''Luba-2'', iotId = ''iot2''\<rparr>\<rparr>"
  let ?m1 = "\<lparr>name = ''Luba-1'', p_ble_device = None, p_cloud_device = Some ?h1, preference = WIFI\<rparr>"
  let ?m2 = "\<lparr>name = ''Luba-2'', p_ble_device = None, p_cloud_device = Some ?h2, preference = WIFI\<rparr>"
  let ?m3 = "\<lparr>name = ''Luba-3'',
          p_ble_device = Some \<lparr>raw_device = \<lparr>BLEDevice_name = ''Luba-3'', address = ''AA:BB''\<rparr>\<rparr>,
          p_cloud_device = None, preference = BLUETOOTH\<rparr>"
  let ?two = "initial_Mammotion\<lparr>devices := [(''Luba-1'', ?m1), (''Luba-2'', ?m2)]\<rparr>"
  let ?one = "initial_Mammotion\<lparr>devices := [(''Luba-2'', ?m2)]\<rparr>"
  let ?radio = "initial_Mammotion\<lparr>devices := [(''Luba-3'', ?m3)]\<rparr>"
  note T = remove_device_tears_down_unshared_broker
  have shared: "\<exists>k d c. k \<noteq> ''Luba-1'' \<and> map_of (devices ?two) k = Some d \<and> cloud d = Some c
      \<and> mqtt c = Some 0"
    by (rule exI [of _ "''Luba-2''"], rule exI [of _ ?m2], rule exI [of _ ?h2])
      (simp add: cloud_def)
  have alone: "\<not> (\<exists>k d c. k \<noteq> ''Luba-2'' \<and> map_of (devices ?one) k = Some d \<and> cloud d = Some c
      \<and> mqtt c = Some 0)"
    by simp
  have c0: "calls initial_Mammotion = []"
    by (simp add: initial_Mammotion_def)
  have first: "\<exists>devs'. Mammotion_remove_device ?two ''Luba-1'' = Inr (?two\<lparr>devices := devs'\<rparr>)"
    using T [of ?two "''Luba-1''" ?m1 0] shared
    by (auto simp add: cloud_def)
  have second: "\<exists>devs'. Mammotion_remove_device ?one ''Luba-2''
      = Inr (?one\<lparr>devices := devs', calls := [Disconnect 0]\<rparr>)"
    using T [of ?one "''Luba-2''" ?m2 0] alone
    by (auto simp add: cloud_def c0)
  have third: "\<exists>devs'. Mammotion_remove_device ?radio ''Luba-3'' = Inr (?radio\<lparr>devices := devs'\<rparr>)
      \<and> map_of devs' ''Luba-3'' = None"
    using T [of ?radio "''Luba-3''" ?m3 0]
    by (auto simp add: cloud_def)
  have r1: "map_sum id devices (Mammotion_remove_device ?two ''Luba-1'') = Inr [(''Luba-2'', ?m2)]"
    by (simp add: Mammotion_remove_device_def remove_device_def has_cloud_def cloud_def
        shares_mqtt_def AList.delete_eq)
  have r2: "map_sum id devices (Mammotion_remove_device ?one ''Luba-2'') = Inr []"
    by (simp add: Mammotion_remove_device_def remove_device_def has_cloud_def cloud_def
        shares_mqtt_def AList.delete_eq)
  have r3: "map_sum id devices (Mammotion_remove_device ?radio ''Luba-3'') = Inr []"
    by (simp add: Mammotion_remove_device_def remove_device_def has_cloud_def cloud_def
        AList.delete_eq)
  from first r1 second r2 third r3 show ?thesis by auto
qed

subsection \<open>Reconciliation with the account's device list\<close>

text \<open>
  Claim C7: \<open>add_cloud_devices\<close> never raises and changes nothing but the registry. A name
  that is not the name of a device of the account's list, or that does not start with
  \<^verbatim>\<open>Luba-\<close> or \<^verbatim>\<open>Yuka-\<close>, has the entry it had (or none, as before). A recognized name of
  the list has the entry \<open>reconcile_entry\<close> describes: registered with a cloud handle
  under WIFI preference when it was not in the registry, a cloud handle attached when the
  entry had none, the handle rebound to the current connection when it was bound to
  another one. The descriptor is the first of that name in the list.
\<close>

theorem add_cloud_devices_reconciles:
  "\<exists>self'. add_cloud_devices self r = Inr self'
     \<and> self' = self\<lparr>devices := devices self'\<rparr>
     \<and> (\<forall>n. map_of (devices self') n =
          (case find (\<lambda>dev. deviceName dev = n)
                  (devices_by_account (cloud_client (objects self r))) of
             None \<Rightarrow> map_of (devices self) n
           | Some dev \<Rightarrow>
               if startswith n [''Luba-'', ''Yuka-'']
               then Some (reconcile_entry r dev (map_of (devices self) n))
               else map_of (devices self) n))"
proof -
  obtain devs' where l: "add_cloud_devices_loop (devices self) r
        (devices_by_account (cloud_client (objects self r))) = Inr devs'"
    and m: "\<forall>n. map_of devs' n =
          (case find (\<lambda>dev. deviceName dev = n)
                  (devices_by_account (cloud_client (objects self r))) of
             None \<Rightarrow> map_of (devices self) n
           | Some dev \<Rightarrow>
               if startswith n [''Luba-'', ''Yuka-'']
               then Some (reconcile_entry r dev (map_of (devices self) n))
               else map_of (devices self) n)"
    using add_cloud_devices_loop_result by blast
  from l have "add_cloud_devices self r = Inr (self\<lparr>devices := devs'\<rparr>)"
    by (simp add: add_cloud_devices_def)
  with m show ?thesis by simp
qed

theorem add_cloud_devices_reconciles_witness:
  "\<exists>self'. add_cloud_devices
      (initial_Mammotion\<lparr>
        devices := [(''Luba-1'', \<lparr>name = ''Luba-1'',
           p_ble_device = Some \<lparr>raw_device = \<lparr>BLEDevice_name = ''Luba-1'', address = ''AA:BB''\<rparr>\<rparr>,
           p_cloud_device = None, preference = BLUETOOTH\<rparr>),
          (''Luba-2'', \<lparr>name = ''Luba-2'', p_ble_device = None,
           p_cloud_device = Some \<lparr>mqtt = Some 0, device = \<lparr>deviceName = ''Luba-2'', iotId = ''iot2''\<rparr>\<rparr>,
           preference = WIFI\<rparr>)],
        objects := (\<lambda>_. \<lparr>cloud_client = \<lparr>client_id = ''c1'',
             devices_by_account = [\<lparr>deviceName = ''Luba-1'', iotId = ''iot1''\<rparr>,
                                   \<lparr>deviceName = ''Luba-2'', iotId = ''iot2''\<rparr>,
                                   \<lparr>deviceName = ''Yuka-3'', iotId = ''iot3''\<rparr>,
                                   \<lparr>deviceName = ''RTK-4'', iotId = ''iot4''\<rparr>]\<rparr>,
           is_connected = True\<rparr>),
        next_ref := 2\<rparr>) 1 = Inr self'
     \<and> map_of (devices self') ''Luba-1'' = Some \<lparr>name = ''Luba-1'',
           p_ble_device = Some \<lparr>raw_device = \<lparr>BLEDevice_name = ''Luba-1'', address = ''AA:BB''\<rparr>\<rparr>,
           p_cloud_device = Some \<lparr>mqtt = Some 1, device = \<lparr>deviceName = ''Luba-1'', iotId = ''iot1''\<rparr>\<rparr>,
           preference = BLUETOOTH\<rparr>
     \<and> map_of (devices self') ''Luba-2'' = Some \<lparr>name = ''Luba-2'', p_ble_device = None,
           p_cloud_device = Some \<lparr>mqtt = Some 1, device = \<lparr>deviceName = ''Luba-2'', iotId = ''iot2''\<rparr>\<rparr>,
           preference = WIFI\<rparr>
     \<and> map_of (devices self') ''Yuka-3'' = Some \<lparr>name = ''Yuka-3'', p_ble_device = None,
           p_cloud_device = Some \<lparr>mqtt = Some 1, device = \<lparr>deviceName = ''Yuka-3'', iotId = ''iot3''\<rparr>\<rparr>,
           preference = WIFI\<rparr>
     \<and> map_of (devices self') ''RTK-4'' = None"
proof -
  let ?st = "initial_Mammotion\<lparr>
        devices := [(''Luba-1'', \<lparr>name = ''Luba-1'',
           p_ble_device = Some \<lparr>raw_device = \<lparr>BLEDevice_name = ''Luba-1'', address = ''AA:BB''\<rparr>\<rparr>,
           p_cloud_device = None, preference = BLUETOOTH\<rparr>),
          (''Luba-2'', \<lparr>name = ''Luba-2'', p_ble_device = None,
           p_cloud_device = Some \<lparr>mqtt = Some 0, device = \<lparr>deviceName = ''Luba-2'', iotId = ''iot2''\<rparr>\<rparr>,
           preference = WIFI\<rparr>)],
        objects := (\<lambda>_. \<lparr>cloud_client = \<lparr>client_id = ''c1'',
             devices_by_account = [\<lparr>deviceName = ''Luba-1'', iotId = ''iot1''\<rparr>,
                                   \<lparr>deviceName = ''Luba-2'', iotId = ''iot2''\<rparr>,
                                   \<lparr>deviceName = ''Yuka-3'', iotId = ''iot3''\<rparr>,
                                   \<lparr>deviceName = ''RTK-4'', iotId = ''iot4''\<rparr>]\<rparr>,
           is_connected = True\<rparr>),
        next_ref := 2\<rparr>"
  obtain self' where r: "add_cloud_devices ?st 1 = Inr self'"
    and m: "\<And>n. map_of (devices self') n =
          (case find (\<lambda>dev. deviceName dev = n)
                  (devices_by_account (cloud_client (objects ?st 1))) of
             None \<Rightarrow> map_of (devices ?st) n
           | Some dev \<Rightarrow>
               if startswith n [''Luba-'', ''Yuka-'']
               then Some (reconcile_entry 1 dev (map_of (devices ?st) n))
               else map_of (devices ?st) n)"
    using add_cloud_devices_reconciles [of ?st 1] by blast
  have "map_of (devices self') ''Luba-1'' = Some \<lparr>name = ''Luba-1'',
           p_ble_device = Some \<lparr>raw_device = \<lparr>BLEDevice_name = ''Luba-1'', address = ''AA:BB''\<rparr>\<rparr>,
           p_cloud_device = Some \<lparr>mqtt = Some 1, device = \<lparr>deviceName = ''Luba-1'', iotId = ''iot1''\<rparr>\<rparr>,
           preference = BLUETOOTH\<rparr>"
    by (simp add: m startswith_def reconcile_entry_def)
  moreover have "map_of (devices self') ''Luba-2'' = Some \<lparr>name = ''Luba-2'', p_ble_device = None,
           p_cloud_device = Some \<lparr>mqtt = Some 1, device = \<lparr>deviceName = ''Luba-2'', iotId = ''iot2''\<rparr>\<rparr>,
           preference = WIFI\<rparr>"
    by (simp add: m startswith_def reconcile_entry_def)
  moreover have "map_of (devices self') ''Yuka-3'' = Some \<lparr>name = ''Yuka-3'', p_ble_device = None,
           p_cloud_device = Some \<lparr>mqtt = Some 1, device = \<lparr>deviceName = ''Yuka-3'', iotId = ''iot3''\<rparr>\<rparr>,
           preference = WIFI\<rparr>"
    by (simp add: m startswith_def reconcile_entry_def)
  moreover have "map_of (devices self') ''RTK-4'' = None"
    by (simp add: m startswith_def reconcile_entry_def)
  ultimately show ?thesis using r by blast
qed

subsection \<open>Login and connection\<close>

text \<open>
  Claim C5, for one call of \<open>login_and_initiate_cloud\<close>. When the account has a session
  and \<open>force\<close> is false, the call is the connection step on the stored cloud context: the
  login exchange has no part in the result. When the account has no session or \<open>force\<close> is
  true, the login exchange runs: its error is the error of the call, and after a
  successful exchange, which is recorded, the connection step runs on the new context. In
  the connection step, when the account has a broker connection that reports connected,
  the step is the reconciliation with that connection and changes the registry only: no
  broker connection object is created, \<open>mqtt_list\<close> is as before and no call to
  \<^verbatim>\<open>connect_async\<close> is recorded. Together: with a connected session and without \<open>force\<close>
  the whole call changes the registry only.
\<close>

theorem login_and_initiate_cloud_reuses_session:
  "(mqtt_list self account = Some r \<and> \<not> force \<longrightarrow>
      login_and_initiate_cloud exchange self account password force
        = initiate_cloud_connection self account (cloud_client (objects self r)))
   \<and> (mqtt_list self account = None \<or> force \<longrightarrow>
      login_and_initiate_cloud exchange self account password force
        = (case exchange account password of
             Inl e \<Rightarrow> Inl e
           | Inr client \<Rightarrow>
               initiate_cloud_connection
                 (self\<lparr>calls := calls self @ [Login_exchange account]\<rparr>) account client))
   \<and> (mqtt_list self account = Some r \<and> is_connected (objects self r) \<longrightarrow>
      initiate_cloud_connection self account client = add_cloud_devices self r
      \<and> (\<exists>devs'. initiate_cloud_connection self account client = Inr (self\<lparr>devices := devs'\<rparr>)))
   \<and> (mqtt_list self account = Some r \<and> is_connected (objects self r) \<and> \<not> force \<longrightarrow>
      (\<exists>devs'. login_and_initiate_cloud exchange self account password force
                 = Inr (self\<lparr>devices := devs'\<rparr>)))"
proof (intro conjI impI)
  assume a: "mqtt_list self account = Some r \<and> \<not> force"
  then show "login_and_initiate_cloud exchange self account password force
        = initiate_cloud_connection self account (cloud_client (objects self r))"
    by (simp add: login_and_initiate_cloud_def)
next
  assume "mqtt_list self account = None \<or> force"
  then show "login_and_initiate_cloud exchange self account password force
        = (case exchange account password of
             Inl e \<Rightarrow> Inl e
           | Inr client \<Rightarrow>
               initiate_cloud_connection
                 (self\<lparr>calls := calls self @ [Login_exchange account]\<rparr>) account client)"
    by (auto simp: login_and_initiate_cloud_def login_def split: sum.splits)
next
  assume a: "mqtt_list self account = Some r \<and> is_connected (objects self r)"
  then show "initiate_cloud_connection self account client = add_cloud_devices self r"
    by (simp add: initiate_cloud_connection_def)
  with add_cloud_devices_only_registry [of self r]
  show "\<exists>devs'. initiate_cloud_connection self account client = Inr (self\<lparr>devices := devs'\<rparr>)"
    by simp
next
  assume a: "mqtt_list self account = Some r \<and> is_connected (objects self r) \<and> \<not> force"
  then have "login_and_initiate_cloud exchange self account password force
        = add_cloud_devices self r"
    by (simp add: login_and_initiate_cloud_def initiate_cloud_connection_def)
  with add_cloud_devices_only_registry [of self r]
  show "\<exists>devs'. login_and_initiate_cloud exchange self account password force
                 = Inr (self\<lparr>devices := devs'\<rparr>)"
    by simp
qed

theorem login_and_initiate_cloud_reuses_session_witness:
  "mqtt_list (initial_Mammotion\<lparr>
        devices := [(''Luba-1'', \<lparr>name = ''Luba-1'',
           p_ble_device = Some \<lparr>raw_device = \<lparr>BLEDevice_name = ''Luba-1'', address = ''AA:BB''\<rparr>\<rparr>,
           p_cloud_device = None, preference = BLUETOOTH\<rparr>)],
        mqtt_list := [''me@example.org'' \<mapsto> 0],
        objects := (\<lambda>_. \<lparr>cloud_client = \<lparr>client_id = ''c1'',
             devices_by_account = [\<lparr>deviceName = ''Luba-1'', iotId = ''iot1''\<rparr>]\<rparr>,
           is_connected = True\<rparr>),
        next_ref := 1\<rparr>) ''me@example.org'' = Some 0
   \<and> login_and_initiate_cloud (\<lambda>a p. Inl LoginError)
       (initial_Mammotion\<lparr>
        devices := [(''Luba-1'', \<lparr>name = ''Luba-1'',
           p_ble_device = Some \<lparr>raw_device = \<lparr>BLEDevice_name = ''Luba-1'', address = ''AA:BB''\<rparr>\<rparr>,
           p_cloud_device = None, preference = BLUETOOTH\<rparr>)],
        mqtt_list := [''me@example.org'' \<mapsto> 0],
        objects := (\<lambda>_. \<lparr>cloud_client = \<lparr>client_id = ''c1'',
             devices_by_account = [\<lparr>deviceName = ''Luba-1'', iotId = ''iot1''\<rparr>]\<rparr>,
           is_connected = True\<rparr>),
        next_ref := 1\<rparr>) ''me@example.org'' ''secret'' False
     = Inr (initial_Mammotion\<lparr>
        devices := [(''Luba-1'', \<lparr>name = ''Luba-1'',
           p_ble_device = Some \<lparr>raw_device = \<lparr>BLEDevice_name = ''Luba-1'', address = ''AA:BB''\<rparr>\<rparr>,
           p_cloud_device = Some \<lparr>mqtt = Some 0, device = \<lparr>deviceName = ''Luba-1'', iotId = ''iot1''\<rparr>\<rparr>,
           preference = BLUETOOTH\<rparr>)],
        mqtt_list := [''me@example.org'' \<mapsto> 0],
        objects := (\<lambda>_. \<lparr>cloud_client = \<lparr>client_id = ''c1'',
             devices_by_account = [\<lparr>deviceName = ''Luba-1'', iotId = ''iot1''\<rparr>]\<rparr>,
           is_connected = True\<rparr>),
        next_ref := 1\<rparr>)
   \<and> mqtt_list initial_Mammotion ''me@example.org'' = None
   \<and> login_and_initiate_cloud (\<lambda>a p. Inl LoginError) initial_Mammotion
         ''me@example.org'' ''secret'' False = Inl LoginError
   \<and> map_sum id calls (login_and_initiate_cloud
         (\<lambda>a p. Inr \<lparr>client_id = ''c1'', devices_by_account = []\<rparr>) initial_Mammotion
         ''me@example.org'' ''secret'' False)
       = Inr [Login_exchange ''me@example.org'', Connect_async 0]"
proof -
  let ?cc = "\<lparr>client_id = ''c1'', devices_by_account = [\<lparr>deviceName = ''Luba-1'', iotId = ''iot1''\<rparr>]\<rparr>"
  let ?st = "initial_Mammotion\<lparr>
        devices := [(''Luba-1'', \<lparr>name = ''Luba-1'',
           p_ble_device = Some \<lparr>raw_device = \<lparr>BLEDevice_name = ''Luba-1'', address = ''AA:BB''\<rparr>\<rparr>,
           p_cloud_device = None, preference = BLUETOOTH\<rparr>)],
        mqtt_list := [''me@example.org'' \<mapsto> 0],
        objects := (\<lambda>_. \<lparr>cloud_client = ?cc, is_connected = True\<rparr>),
        next_ref := 1\<rparr>"
  note T = login_and_initiate_cloud_reuses_session
  have s: "mqtt_list ?st ''me@example.org'' = Some 0" "is_connected (objects ?st 0)"
    by simp_all
  have "login_and_initiate_cloud (\<lambda>a p. Inl LoginError) ?st ''me@example.org'' ''secret'' False
      = add_cloud_devices ?st 0"
    using T [of ?st "''me@example.org''" 0 False "\<lambda>a p. Inl LoginError" "''secret''" ?cc] s
    by simp
  moreover have "add_cloud_devices ?st 0 = Inr (?st\<lparr>devices := [(''Luba-1'', \<lparr>name = ''Luba-1'',
           p_ble_device = Some \<lparr>raw_device = \<lparr>BLEDevice_name = ''Luba-1'', address = ''AA:BB''\<rparr>\<rparr>,
           p_cloud_device = Some \<lparr>mqtt = Some 0, device = \<lparr>deviceName = ''Luba-1'', iotId = ''iot1''\<rparr>\<rparr>,
           preference = BLUETOOTH\<rparr>)]\<rparr>)"
    by (simp add: add_cloud_devices_def add_cloud_device_def get_device_def startswith_def
        cloud_def add_cloud_def)
  ultimately have reuse: "login_and_initiate_cloud (\<lambda>a p. Inl LoginError) ?st ''me@example.org'' ''secret'' False
      = Inr (?st\<lparr>devices := [(''Luba-1'', \<lparr>name = ''Luba-1'',
           p_ble_device = Some \<lparr>raw_device = \<lparr>BLEDevice_name = ''Luba-1'', address = ''AA:BB''\<rparr>\<rparr>,
           p_cloud_device = Some \<lparr>mqtt = Some 0, device = \<lparr>deviceName = ''Luba-1'', iotId = ''iot1''\<rparr>\<rparr>,
           preference = BLUETOOTH\<rparr>)]\<rparr>)"
    by simp
  have n: "mqtt_list initial_Mammotion ''me@example.org'' = None"
    by (simp add: initial_Mammotion_def)
  have fail: "login_and_initiate_cloud (\<lambda>a p. Inl LoginError) initial_Mammotion
         ''me@example.org'' ''secret'' False = Inl LoginError"
    using T [of initial_Mammotion "''me@example.org''" 0 False "\<lambda>a p. Inl LoginError" "''secret''" ?cc] n
    by simp
  have fresh: "map_sum id calls (login_and_initiate_cloud
         (\<lambda>a p. Inr \<lparr>client_id = ''c1'', devices_by_account = []\<rparr>) initial_Mammotion
         ''me@example.org'' ''secret'' False)
       = Inr [Login_exchange ''me@example.org'', Connect_async 0]"
    using T [of initial_Mammotion "''me@example.org''" 0 False
        "\<lambda>a p. Inr \<lparr>client_id = ''c1'', devices_by_account = []\<rparr>" "''secret''" ?cc] n
    by (simp add: initiate_cloud_connection_def new_cloud_connection_def add_cloud_devices_def
        initial_Mammotion_def)
  from s(1) reuse n fail fresh show ?thesis by simp
qed

end
